theory Spec2Isabelle
  imports Main
begin

section \<open>Type signatures and values\<close>

text \<open>
  The module \<^verbatim>\<open>native_platform.py\<close> dispatches on the kind of a
  \<^verbatim>\<open>computation_types.Type\<close>. The type hierarchy is a collaborator; its kinds are
  a datatype here, one constructor per subclass. A struct type is the ordered list of its
  fields, each with an optional name, which is what \<^verbatim>\<open>structure.iter_elements\<close>
  yields.
\<close>

datatype placement = CLIENTS | SERVER

datatype dtype = Int32 | Float32 | Bool | String

datatype tff_type =
    TensorType dtype "nat list"
  | SequenceType tff_type
  | FederatedType tff_type placement
  | StructType "(string option \<times> tff_type) list"
  | FunctionType "tff_type option" tff_type
  | AbstractType string
  | PlacementType

fun is_struct :: "tff_type \<Rightarrow> bool" where
  "is_struct (StructType fs) = True"
| "is_struct t = False"

fun is_federated :: "tff_type \<Rightarrow> bool" where
  "is_federated (FederatedType m p) = True"
| "is_federated t = False"

fun is_sequence :: "tff_type \<Rightarrow> bool" where
  "is_sequence (SequenceType el) = True"
| "is_sequence t = False"

fun is_tensor :: "tff_type \<Rightarrow> bool" where
  "is_tensor (TensorType d s) = True"
| "is_tensor t = False"

text \<open>
  Python values as the walkers see them. Numpy data is an integer scalar or a
  one-dimensional integer array; the walkers pass it on and never compare it. \<open>StructV\<close>
  is a \<^verbatim>\<open>structure.Struct\<close>, \<open>ListV\<close> a Python list or tuple, and
  \<open>Ref v t\<close> the object \<^verbatim>\<open>NumpyValueReference(v, t)\<close>.
\<close>

datatype pyval =
    NoneV
  | Scalar int
  | Array "int list"
  | ListV "pyval list"
  | StructV "(string option \<times> pyval) list"
  | Ref pyval tff_type

datatype value_error =
    EmptyDatasets
  | ElementSpecMismatch tff_type tff_type
  | BadNumberOfClients
  | ResultTypeNotServerPlaced tff_type

datatype error =
    TypeError
  | AttributeError
  | IndexError
  | NotImplementedError tff_type
  | ValueError value_error
  | ExternalError nat

section \<open>NumpyValueReference\<close>

text \<open>
  The constructor checks that the type signature is a tensor or a sequence type
  (\<^verbatim>\<open>py_typecheck.check_type\<close> raises \<^verbatim>\<open>TypeError\<close> otherwise).
\<close>

definition NumpyValueReference :: "pyval \<Rightarrow> tff_type \<Rightarrow> error + pyval" where
  "NumpyValueReference v t =
     (if is_tensor t \<or> is_sequence t then Inr (Ref v t) else Inl TypeError)"

section \<open>The structural type walker\<close>

text \<open>
  Modelled from the spec: \<^verbatim>\<open>structure.from_container\<close> is not among the sources. The
  spec has it "coerce value into the canonical ordered-named-field form": a struct is
  returned as it is, a list or tuple becomes a struct of unnamed fields in the same order,
  and a value that is no container is a \<^verbatim>\<open>TypeError\<close>. Iterating a struct yields
  the field values without their names.
\<close>

fun from_container :: "pyval \<Rightarrow> error + (string option \<times> pyval) list" where
  "from_container (StructV es) = Inr es"
| "from_container (ListV vs) = Inr (map (Pair None) vs)"
| "from_container v = Inl TypeError"

text \<open>
  \<^verbatim>\<open>_create_structure_of_value_references\<close>. The loop over
  \<^verbatim>\<open>zip(value, element_types)\<close> is \<open>create_elements\<close>: it ends when either
  the values or the fields run out, and an exception of a recursive call leaves it at once.
\<close>

fun create_structure_of_value_references :: "pyval \<Rightarrow> tff_type \<Rightarrow> error + pyval"
  and create_elements ::
    "pyval list \<Rightarrow> (string option \<times> tff_type) list \<Rightarrow> error + (string option \<times> pyval) list"
where
  "create_structure_of_value_references v (StructType fs) =
     (case from_container v of
        Inl e \<Rightarrow> Inl e
      | Inr es \<Rightarrow>
          (case create_elements (map snd es) fs of
             Inl e \<Rightarrow> Inl e
           | Inr elements \<Rightarrow> Inr (StructV elements)))"
| "create_structure_of_value_references v (FederatedType m p) =
     create_structure_of_value_references v m"
| "create_structure_of_value_references v (SequenceType el) =
     NumpyValueReference v (SequenceType el)"
| "create_structure_of_value_references v (TensorType d s) =
     NumpyValueReference v (TensorType d s)"
| "create_structure_of_value_references v (FunctionType p r) =
     Inl (NotImplementedError (FunctionType p r))"
| "create_structure_of_value_references v (AbstractType l) =
     Inl (NotImplementedError (AbstractType l))"
| "create_structure_of_value_references v PlacementType =
     Inl (NotImplementedError PlacementType)"
| "create_elements [] fs = Inr []"
| "create_elements (x # xs) [] = Inr []"
| "create_elements (x # xs) ((name, element_type) # fs) =
     (case create_structure_of_value_references x element_type of
        Inl e \<Rightarrow> Inl e
      | Inr element \<Rightarrow>
          (case create_elements xs fs of
             Inl e \<Rightarrow> Inl e
           | Inr elements \<Rightarrow> Inr ((name, element) # elements)))"

text \<open>The local helper \<^verbatim>\<open>_materialize\<close>.\<close>

fun materialize :: "pyval \<Rightarrow> pyval" where
  "materialize (Ref v t) = v"
| "materialize x = x"

text \<open>\<^verbatim>\<open>_materialize_structure_of_value_references\<close>, with the same loop.\<close>

fun materialize_structure_of_value_references :: "pyval \<Rightarrow> tff_type \<Rightarrow> error + pyval"
  and materialize_elements ::
    "pyval list \<Rightarrow> (string option \<times> tff_type) list \<Rightarrow> error + (string option \<times> pyval) list"
where
  "materialize_structure_of_value_references v (StructType fs) =
     (case from_container v of
        Inl e \<Rightarrow> Inl e
      | Inr es \<Rightarrow>
          (case materialize_elements (map snd es) fs of
             Inl e \<Rightarrow> Inl e
           | Inr elements \<Rightarrow> Inr (StructV elements)))"
| "materialize_structure_of_value_references v (FederatedType m p) =
     materialize_structure_of_value_references v m"
| "materialize_structure_of_value_references v (SequenceType el) = Inr (materialize v)"
| "materialize_structure_of_value_references v (TensorType d s) = Inr (materialize v)"
| "materialize_structure_of_value_references v (FunctionType p r) = Inr v"
| "materialize_structure_of_value_references v (AbstractType l) = Inr v"
| "materialize_structure_of_value_references v PlacementType = Inr v"
| "materialize_elements [] fs = Inr []"
| "materialize_elements (x # xs) [] = Inr []"
| "materialize_elements (x # xs) ((name, element_type) # fs) =
     (case materialize_structure_of_value_references x element_type of
        Inl e \<Rightarrow> Inl e
      | Inr element \<Rightarrow>
          (case materialize_elements xs fs of
             Inl e \<Rightarrow> Inl e
           | Inr elements \<Rightarrow> Inr ((name, element) # elements)))"

text \<open>
  A value matches a type signature when it fits the type's struct skeleton: at a struct
  type it is a container that \<open>from_container\<close> accepts, with as many elements as the
  type has fields, each element unnamed or named as its field, and each element matches
  its field's type; a federated type is matched as its member; any value may stand at a
  sequence or tensor leaf.
\<close>

fun conforms :: "pyval \<Rightarrow> tff_type \<Rightarrow> bool"
  and conforms_fields ::
    "(string option \<times> pyval) list \<Rightarrow> (string option \<times> tff_type) list \<Rightarrow> bool"
where
  "conforms v (StructType fs) =
     (case from_container v of Inl e \<Rightarrow> False | Inr es \<Rightarrow> conforms_fields es fs)"
| "conforms v (FederatedType m p) = conforms v m"
| "conforms v (SequenceType el) = True"
| "conforms v (TensorType d s) = True"
| "conforms v (FunctionType p r) = False"
| "conforms v (AbstractType l) = False"
| "conforms v PlacementType = False"
| "conforms_fields [] [] = True"
| "conforms_fields [] (f # fs) = False"
| "conforms_fields (e # es) [] = False"
| "conforms_fields ((n, x) # es) ((name, element_type) # fs) =
     ((n = None \<or> n = name) \<and> conforms x element_type \<and> conforms_fields es fs)"

text \<open>
  The canonical form of a value under a type: every container standing at a struct node is
  the struct of its elements in the same order under the type's field names; what stands
  at a leaf is left as it is.
\<close>

fun canonical :: "pyval \<Rightarrow> tff_type \<Rightarrow> pyval"
  and canonical_elements ::
    "pyval list \<Rightarrow> (string option \<times> tff_type) list \<Rightarrow> (string option \<times> pyval) list"
where
  "canonical v (StructType fs) =
     (case from_container v of
        Inl e \<Rightarrow> v
      | Inr es \<Rightarrow> StructV (canonical_elements (map snd es) fs))"
| "canonical v (FederatedType m p) = canonical v m"
| "canonical v (SequenceType el) = v"
| "canonical v (TensorType d s) = v"
| "canonical v (FunctionType p r) = v"
| "canonical v (AbstractType l) = v"
| "canonical v PlacementType = v"
| "canonical_elements [] fs = []"
| "canonical_elements (x # xs) [] = []"
| "canonical_elements (x # xs) ((name, element_type) # fs) =
     (name, canonical x element_type) # canonical_elements xs fs"

text \<open>
  A value is in canonical form already when at every struct node it is a struct with as
  many fields as the type, under the same names and in the same order.
\<close>

fun matches :: "pyval \<Rightarrow> tff_type \<Rightarrow> bool"
  and matches_fields ::
    "(string option \<times> pyval) list \<Rightarrow> (string option \<times> tff_type) list \<Rightarrow> bool"
where
  "matches v (StructType fs) = (case v of StructV es \<Rightarrow> matches_fields es fs | _ \<Rightarrow> False)"
| "matches v (FederatedType m p) = matches v m"
| "matches v (SequenceType el) = True"
| "matches v (TensorType d s) = True"
| "matches v (FunctionType p r) = False"
| "matches v (AbstractType l) = False"
| "matches v PlacementType = False"
| "matches_fields [] [] = True"
| "matches_fields [] (f # fs) = False"
| "matches_fields (e # es) [] = False"
| "matches_fields ((n, x) # es) ((name, element_type) # fs) =
     (n = name \<and> matches x element_type \<and> matches_fields es fs)"

section \<open>Equality of value references\<close>

text \<open>
  The raw value of a reference is numpy data: a scalar (\<^verbatim>\<open>np.generic\<close>) or a
  one-dimensional array (\<^verbatim>\<open>np.ndarray\<close>) of integers. References over other
  Python iterables are not covered here.
\<close>

datatype np_value = Generic int | NdArray "int list"

text \<open>
  What \<^verbatim>\<open>__eq__\<close> may return: a bool (numpy's \<^verbatim>\<open>np.bool_\<close> included), an
  array of bools, or \<^verbatim>\<open>NotImplemented\<close>.
\<close>

datatype eq_result = PyBool bool | BoolArray "bool list" | NotImplemented

text \<open>
  numpy's \<^verbatim>\<open>a == b\<close>. Two scalars compare to a bool. With an array on either side
  the comparison is elementwise and gives an array: a scalar and an array of one element
  are broadcast over the other array. For two arrays of different lengths, neither of
  length one, numpy before 1.25 answers \<^verbatim>\<open>False\<close> with a warning and later
  versions raise; that answer is the parameter \<open>mismatch\<close>.
\<close>

fun np_equal :: "error + eq_result \<Rightarrow> np_value \<Rightarrow> np_value \<Rightarrow> error + eq_result" where
  "np_equal mismatch (Generic a) (Generic b) = Inr (PyBool (a = b))"
| "np_equal mismatch (Generic a) (NdArray ys) = Inr (BoolArray (map (\<lambda>y. a = y) ys))"
| "np_equal mismatch (NdArray xs) (Generic b) = Inr (BoolArray (map (\<lambda>x. x = b) xs))"
| "np_equal mismatch (NdArray xs) (NdArray ys) =
     (if length xs = length ys then Inr (BoolArray (map (\<lambda>(x, y). x = y) (zip xs ys)))
      else if length xs = 1 then Inr (BoolArray (map (\<lambda>y. hd xs = y) ys))
      else if length ys = 1 then Inr (BoolArray (map (\<lambda>x. x = hd ys) xs))
      else mismatch)"

text \<open>
  \<^verbatim>\<open>list(x)\<close>: the elements of an array, as scalars; a scalar is not iterable
  (\<^verbatim>\<open>TypeError\<close>). Two lists of scalars are equal when they have the same length
  and equal elements.
\<close>

fun np_list :: "np_value \<Rightarrow> error + int list" where
  "np_list (NdArray xs) = Inr xs"
| "np_list (Generic a) = Inl TypeError"

text \<open>
  Objects live in a store and are held by address, so that \<^verbatim>\<open>self is other\<close> is
  equality of addresses. \<^verbatim>\<open>__eq__\<close> returns what \<^verbatim>\<open>==\<close> gives on the raw
  values as it is.
\<close>

datatype py_object = NumpyValueReferenceObject np_value tff_type | OtherObject

definition NumpyValueReference_eq ::
  "error + eq_result \<Rightarrow> (nat \<Rightarrow> py_object) \<Rightarrow> nat \<Rightarrow> nat \<Rightarrow> error + eq_result" where
  "NumpyValueReference_eq mismatch heap self other =
     (if self = other then Inr (PyBool True)
      else
        (case heap other of
           NumpyValueReferenceObject v' t' \<Rightarrow>
             (case heap self of
                NumpyValueReferenceObject v t \<Rightarrow>
                  (if t \<noteq> t' then Inr (PyBool False)
                   else if is_sequence t then
                     (case np_list v of
                        Inl e \<Rightarrow> Inl e
                      | Inr xs \<Rightarrow>
                          (case np_list v' of
                             Inl e \<Rightarrow> Inl e
                           | Inr ys \<Rightarrow> Inr (PyBool (xs = ys))))
                   else np_equal mismatch v v')
              | OtherObject \<Rightarrow> Inl AttributeError)
         | OtherObject \<Rightarrow> Inr NotImplemented))"

section \<open>NativeFederatedContext\<close>

text \<open>
  Modelled from the spec: \<^verbatim>\<open>federated_context.contains_only_server_placed_data\<close>
  is not among the sources. The spec has it hold when the type "must contain only
  {struct, server-placed federated value, tensor} kinds recursively": every node of the
  type tree is a struct, a federated type placed at the server, or a tensor.
\<close>

fun contains_only_server_placed_data :: "tff_type \<Rightarrow> bool"
  and fields_only_server_placed_data :: "(string option \<times> tff_type) list \<Rightarrow> bool"
where
  "contains_only_server_placed_data (StructType fs) = fields_only_server_placed_data fs"
| "contains_only_server_placed_data (FederatedType m p) =
     (p = SERVER \<and> contains_only_server_placed_data m)"
| "contains_only_server_placed_data (TensorType d s) = True"
| "contains_only_server_placed_data (SequenceType el) = False"
| "contains_only_server_placed_data (FunctionType p r) = False"
| "contains_only_server_placed_data (AbstractType l) = False"
| "contains_only_server_placed_data PlacementType = False"
| "fields_only_server_placed_data [] = True"
| "fields_only_server_placed_data ((name, t) # fs) =
     (contains_only_server_placed_data t \<and> fields_only_server_placed_data fs)"

text \<open>A type contains a client-placed value when some node of its tree is a federated
  type placed at the clients.\<close>

fun contains_client_placed :: "tff_type \<Rightarrow> bool"
  and fields_contain_client_placed :: "(string option \<times> tff_type) list \<Rightarrow> bool"
where
  "contains_client_placed (StructType fs) = fields_contain_client_placed fs"
| "contains_client_placed (FederatedType m p) = (p = CLIENTS \<or> contains_client_placed m)"
| "contains_client_placed (TensorType d s) = False"
| "contains_client_placed (SequenceType el) = contains_client_placed el"
| "contains_client_placed (FunctionType None r) = contains_client_placed r"
| "contains_client_placed (FunctionType (Some p) r) =
     (contains_client_placed p \<or> contains_client_placed r)"
| "contains_client_placed (AbstractType l) = False"
| "contains_client_placed PlacementType = False"
| "fields_contain_client_placed [] = False"
| "fields_contain_client_placed ((name, t) # fs) =
     (contains_client_placed t \<or> fields_contain_client_placed fs)"

text \<open>
  A computation carries its function type. The execution engine
  (\<^verbatim>\<open>self._context\<close>) and \<^verbatim>\<open>type_conversions.type_to_py_container\<close> are
  collaborators: they are parameters, each returning a value or failing with an error of
  its own. The calls made to the engine are recorded in order.
\<close>

record function_type =
  parameter :: "tff_type option"
  result :: tff_type

record computation =
  comp_id :: nat
  type_signature :: function_type

record execution_context =
  ingest :: "pyval \<Rightarrow> tff_type \<Rightarrow> nat + pyval"
  invoke :: "computation \<Rightarrow> pyval \<Rightarrow> nat + pyval"

datatype engine_call = Ingest pyval tff_type | Invoke computation pyval

definition invoke_and_wrap ::
  "execution_context \<Rightarrow> (pyval \<Rightarrow> tff_type \<Rightarrow> nat + pyval) \<Rightarrow> computation \<Rightarrow> pyval \<Rightarrow>
   engine_call list \<Rightarrow> (error + pyval) \<times> engine_call list" where
  "invoke_and_wrap ctx type_to_py_container cmp arg calls =
     (let result_type = result (type_signature cmp);
          calls' = calls @ [Invoke cmp arg]
      in case invoke ctx cmp arg of
           Inl c \<Rightarrow> (Inl (ExternalError c), calls')
         | Inr res \<Rightarrow>
             (case create_structure_of_value_references res result_type of
                Inl e \<Rightarrow> (Inl e, calls')
              | Inr refs \<Rightarrow>
                  (case type_to_py_container refs result_type of
                     Inl c \<Rightarrow> (Inl (ExternalError c), calls')
                   | Inr out \<Rightarrow> (Inr out, calls'))))"

definition NativeFederatedContext_invoke ::
  "execution_context \<Rightarrow> (pyval \<Rightarrow> tff_type \<Rightarrow> nat + pyval) \<Rightarrow> computation \<Rightarrow> pyval \<Rightarrow>
   (error + pyval) \<times> engine_call list" where
  "NativeFederatedContext_invoke ctx type_to_py_container cmp arg =
     (let result_type = result (type_signature cmp)
      in if \<not> contains_only_server_placed_data result_type
         then (Inl (ValueError (ResultTypeNotServerPlaced result_type)), [])
         else
           (case parameter (type_signature cmp) of
              None \<Rightarrow> invoke_and_wrap ctx type_to_py_container cmp arg []
            | Some p \<Rightarrow>
                (case ingest ctx arg p of
                   Inl c \<Rightarrow> (Inl (ExternalError c), [Ingest arg p])
                 | Inr arg' \<Rightarrow>
                     invoke_and_wrap ctx type_to_py_container cmp arg' [Ingest arg p])))"

definition NativeFederatedContext_ingest :: "pyval \<Rightarrow> tff_type \<Rightarrow> error + pyval" where
  "NativeFederatedContext_ingest v type_spec =
     materialize_structure_of_value_references v type_spec"

definition count_ingest :: "engine_call list \<Rightarrow> nat" where
  "count_ingest calls = length (filter (\<lambda>c. case c of Ingest v t \<Rightarrow> True | _ \<Rightarrow> False) calls)"

definition count_invoke :: "engine_call list \<Rightarrow> nat" where
  "count_invoke calls = length (filter (\<lambda>c. case c of Invoke f v \<Rightarrow> True | _ \<Rightarrow> False) calls)"

section \<open>Dataset data sources\<close>

text \<open>
  A \<^verbatim>\<open>tf.data.Dataset\<close> is an opaque handle with an element specification, read
  here as the type it converts to. The Python sequence of datasets is an object that the
  data source, its iterators and the caller share: it lives in a store of collections and
  is held by address. The process-wide generator of \<^verbatim>\<open>random\<close> is a stream of
  draws, the head of which is the next one.
\<close>

record dataset =
  dataset_id :: nat
  element_spec :: tff_type

record world =
  collections :: "nat \<Rightarrow> dataset list"
  random_state :: "nat \<Rightarrow> nat"

record data_source_iterator =
  it_datasets :: nat
  it_federated_type :: tff_type

record data_source =
  src_datasets :: nat
  src_federated_type :: tff_type

text \<open>The loop \<^verbatim>\<open>for dataset in datasets\<close> of both constructors, comparing each
  element specification with that of \<^verbatim>\<open>datasets[0]\<close>.\<close>

fun check_element_specs :: "tff_type \<Rightarrow> dataset list \<Rightarrow> error + unit" where
  "check_element_specs spec [] = Inr ()"
| "check_element_specs spec (d # ds) =
     (if element_spec d \<noteq> spec
      then Inl (ValueError (ElementSpecMismatch spec (element_spec d)))
      else check_element_specs spec ds)"

definition DatasetDataSourceIterator_init ::
  "world \<Rightarrow> nat \<Rightarrow> tff_type \<Rightarrow> error + data_source_iterator" where
  "DatasetDataSourceIterator_init w datasets federated_type =
     (case collections w datasets of
        [] \<Rightarrow> Inl (ValueError EmptyDatasets)
      | d0 # rest \<Rightarrow>
          (case check_element_specs (element_spec d0) (d0 # rest) of
             Inl e \<Rightarrow> Inl e
           | Inr u \<Rightarrow>
               if \<not> is_federated federated_type then Inl TypeError
               else Inr \<lparr>it_datasets = datasets, it_federated_type = federated_type\<rparr>))"

definition federated_type :: "data_source_iterator \<Rightarrow> tff_type" where
  "federated_type it = it_federated_type it"

text \<open>
  \<^verbatim>\<open>random.choices(population, k=k)\<close> takes \<open>k\<close> draws; a draw \<open>r\<close> picks
  the element at \<open>r mod n\<close> of a population of \<open>n\<close>, as
  \<^verbatim>\<open>population[floor(random() * n)]\<close> picks one at an index below \<open>n\<close>.
  Indexing an empty population raises \<^verbatim>\<open>IndexError\<close>.
\<close>

fun choices :: "(nat \<Rightarrow> nat) \<Rightarrow> 'a list \<Rightarrow> nat \<Rightarrow> error + 'a list" where
  "choices g population 0 = Inr []"
| "choices g population (Suc k) =
     (if population = [] then Inl IndexError
      else
        (case choices (\<lambda>i. g (Suc i)) population k of
           Inl e \<Rightarrow> Inl e
         | Inr xs \<Rightarrow> Inr (population ! (g 0 mod length population) # xs)))"

definition select ::
  "world \<Rightarrow> data_source_iterator \<Rightarrow> int option \<Rightarrow>
   (error + dataset list) \<times> data_source_iterator \<times> world" where
  "select w self number_of_clients =
     (case number_of_clients of
        None \<Rightarrow> (Inl (ValueError BadNumberOfClients), self, w)
      | Some k \<Rightarrow>
          if k < 0 \<or> k > int (length (collections w (it_datasets self)))
          then (Inl (ValueError BadNumberOfClients), self, w)
          else
            (case choices (random_state w) (collections w (it_datasets self)) (nat k) of
               Inl e \<Rightarrow> (Inl e, self, w)
             | Inr xs \<Rightarrow>
                 (Inr xs, self, w\<lparr>random_state := (\<lambda>i. random_state w (i + nat k))\<rparr>)))"

definition DatasetDataSource_init :: "world \<Rightarrow> nat \<Rightarrow> error + data_source" where
  "DatasetDataSource_init w datasets =
     (case collections w datasets of
        [] \<Rightarrow> Inl (ValueError EmptyDatasets)
      | d0 # rest \<Rightarrow>
          (case check_element_specs (element_spec d0) (d0 # rest) of
             Inl e \<Rightarrow> Inl e
           | Inr u \<Rightarrow>
               Inr \<lparr>src_datasets = datasets,
                    src_federated_type = FederatedType (SequenceType (element_spec d0)) CLIENTS\<rparr>))"

definition iterator :: "world \<Rightarrow> data_source \<Rightarrow> error + data_source_iterator" where
  "iterator w self =
     DatasetDataSourceIterator_init w (src_datasets self) (src_federated_type self)"

section \<open>Example inputs\<close>

definition example_type :: tff_type where
  "example_type =
     StructType
       [(Some ''a'', TensorType Int32 []),
        (None, FederatedType (StructType [(Some ''b'', SequenceType (TensorType Int32 []))]) SERVER)]"

definition example_value :: pyval where
  "example_value =
     StructV [(Some ''a'', Scalar 1), (None, StructV [(Some ''b'', ListV [Scalar 2, Scalar 3])])]"

text \<open>A store with two references over equal arrays under the same tensor type, two over
  equal scalars, and one over the array under a sequence type.\<close>

definition example_heap :: "nat \<Rightarrow> py_object" where
  "example_heap a =
     (if a = 0 then NumpyValueReferenceObject (NdArray [1, 2]) (TensorType Int32 [2])
      else if a = 1 then NumpyValueReferenceObject (NdArray [1, 2]) (TensorType Int32 [2])
      else if a = 2 then NumpyValueReferenceObject (Generic 5) (TensorType Int32 [])
      else if a = 3 then NumpyValueReferenceObject (Generic 5) (TensorType Int32 [])
      else if a = 4 then
        NumpyValueReferenceObject (NdArray [1, 2]) (SequenceType (TensorType Int32 []))
      else OtherObject)"

text \<open>An engine that ingests a value as it is and answers every invocation with a scalar;
  a container conversion that is the identity.\<close>

definition example_context :: execution_context where
  "example_context = \<lparr>ingest = (\<lambda>v t. Inr v), invoke = (\<lambda>c v. Inr (Scalar 7))\<rparr>"

definition example_conversion :: "pyval \<Rightarrow> tff_type \<Rightarrow> nat + pyval" where
  "example_conversion v t = Inr v"

definition computation_of :: "tff_type option \<Rightarrow> tff_type \<Rightarrow> computation" where
  "computation_of p r = \<lparr>comp_id = 0, type_signature = \<lparr>parameter = p, result = r\<rparr>\<rparr>"

text \<open>Three datasets of integers, a dataset of floats, and a world whose collection 0 holds
  the three.\<close>

definition int_dataset :: "nat \<Rightarrow> dataset" where
  "int_dataset i = \<lparr>dataset_id = i, element_spec = TensorType Int32 []\<rparr>"

definition float_dataset :: "nat \<Rightarrow> dataset" where
  "float_dataset i = \<lparr>dataset_id = i, element_spec = TensorType Float32 []\<rparr>"

definition example_world :: world where
  "example_world =
     \<lparr>collections = (\<lambda>a. if a = 0 then [int_dataset 0, int_dataset 1, int_dataset 2] else []),
      random_state = (\<lambda>i. 5 * i + 4)\<rparr>"

definition example_iterator :: data_source_iterator where
  "example_iterator =
     \<lparr>it_datasets = 0,
      it_federated_type = FederatedType (SequenceType (TensorType Int32 [])) CLIENTS\<rparr>"

definition example_source :: data_source where
  "example_source =
     \<lparr>src_datasets = 0,
      src_federated_type = FederatedType (SequenceType (TensorType Int32 [])) CLIENTS\<rparr>"

text \<open>The same world after the caller has appended a dataset of floats to the list it
  passed to the data source.\<close>

definition example_world_appended :: world where
  "example_world_appended =
     example_world\<lparr>collections :=
       (collections example_world)(0 := collections example_world 0 @ [float_dataset 3])\<rparr>"

section \<open>Properties of the structural type walker\<close>

lemma from_container_cases:
  "from_container v = Inr es \<Longrightarrow> v = StructV es \<or> (\<exists>vs. v = ListV vs \<and> es = map (Pair None) vs)"
  by (cases v) auto

lemma roundtrip_canonical_aux:
  "conforms v t \<longrightarrow>
     (\<exists>w. create_structure_of_value_references v t = Inr w \<and>
          materialize_structure_of_value_references w t = Inr (canonical v t))"
  "conforms_fields es fs \<longrightarrow>
     (\<exists>rs. create_elements (map snd es) fs = Inr rs \<and>
           materialize_elements (map snd rs) fs = Inr (canonical_elements (map snd es) fs))"
proof (induction v t and es fs rule: conforms_conforms_fields.induct)
  case (1 v fs)
  then show ?case by (cases "from_container v") auto
next
  case (3 v el)
  then show ?case by (simp add: NumpyValueReference_def)
next
  case (4 v d s)
  then show ?case by (simp add: NumpyValueReference_def)
qed auto

lemma canonical_fixed_aux:
  "conforms v t \<longrightarrow> (canonical v t = v) = matches v t"
  "conforms_fields es fs \<longrightarrow> (canonical_elements (map snd es) fs = es) = matches_fields es fs"
proof (induction v t and es fs rule: conforms_conforms_fields.induct)
  case (1 v fs)
  show ?case
  proof (cases "from_container v")
    case (Inl e)
    then show ?thesis by simp
  next
    case (Inr es)
    then consider "v = StructV es" | vs where "v = ListV vs" "es = map (Pair None) vs"
      using from_container_cases by blast
    then show ?thesis
    proof cases
      case 1
      then show ?thesis using "1.IH" [OF Inr] Inr by simp
    next
      case 2
      then show ?thesis by simp
    qed
  qed
qed auto

text \<open>
  C1. A list given for a struct type matches it, is wrapped without error and is unwrapped
  to a struct of the same fields: the round trip does not return the original list.
\<close>

theorem wrap_unwrap_list_counterexample:
  "conforms (ListV [Scalar 1, Scalar 2])
     (StructType [(None, TensorType Int32 []), (None, TensorType Int32 [])]) \<and>
   create_structure_of_value_references (ListV [Scalar 1, Scalar 2])
     (StructType [(None, TensorType Int32 []), (None, TensorType Int32 [])]) =
     Inr (StructV [(None, Ref (Scalar 1) (TensorType Int32 [])),
                   (None, Ref (Scalar 2) (TensorType Int32 []))]) \<and>
   materialize_structure_of_value_references
     (StructV [(None, Ref (Scalar 1) (TensorType Int32 [])),
               (None, Ref (Scalar 2) (TensorType Int32 []))])
     (StructType [(None, TensorType Int32 []), (None, TensorType Int32 [])]) =
     Inr (StructV [(None, Scalar 1), (None, Scalar 2)]) \<and>
   StructV [(None, Scalar 1), (None, Scalar 2)] \<noteq> ListV [Scalar 1, Scalar 2]"
  by (simp add: NumpyValueReference_def)

text \<open>
  C1, amended. For a type signature built of struct, federated, sequence and tensor nodes
  and a value matching it, a struct node being given as a struct or as a list or tuple of
  its elements, wrapping succeeds and unwrapping the wrapped structure under the same type
  returns the canonical form of the value: a struct under the type's field names, in order,
  at every struct node, and the original values at the leaves. The result is the original
  value exactly when that is in canonical form already.
\<close>

theorem wrap_unwrap_canonical:
  "conforms v t \<Longrightarrow>
     (\<exists>w. create_structure_of_value_references v t = Inr w \<and>
          materialize_structure_of_value_references w t = Inr (canonical v t)) \<and>
     (canonical v t = v \<longleftrightarrow> matches v t)"
  using roundtrip_canonical_aux(1) canonical_fixed_aux(1) by blast


theorem wrap_unwrap_canonical_witness:
  "conforms (ListV [Scalar 1, StructV [(Some ''b'', ListV [Scalar 2, Scalar 3])]]) example_type \<and>
   (\<exists>w. create_structure_of_value_references
          (ListV [Scalar 1, StructV [(Some ''b'', ListV [Scalar 2, Scalar 3])]]) example_type =
          Inr w \<and>
        materialize_structure_of_value_references w example_type = Inr example_value) \<and>
   canonical (ListV [Scalar 1, StructV [(Some ''b'', ListV [Scalar 2, Scalar 3])]]) example_type =
     example_value \<and>
   conforms example_value example_type \<and>
   matches example_value example_type \<and>
   (\<exists>w. create_structure_of_value_references example_value example_type = Inr w \<and>
        materialize_structure_of_value_references w example_type = Inr example_value)"
proof -
  have c1: "conforms (ListV [Scalar 1, StructV [(Some ''b'', ListV [Scalar 2, Scalar 3])]])
              example_type"
    by (simp add: example_type_def)
  have k1: "canonical (ListV [Scalar 1, StructV [(Some ''b'', ListV [Scalar 2, Scalar 3])]])
              example_type = example_value"
    by (simp add: example_type_def example_value_def)
  have c2: "conforms example_value example_type"
    by (simp add: example_type_def example_value_def)
  have m2: "matches example_value example_type"
    by (simp add: example_type_def example_value_def)
  have k2: "canonical example_value example_type = example_value"
    using wrap_unwrap_canonical [OF c2] m2 by blast
  show ?thesis
    using wrap_unwrap_canonical [OF c1] wrap_unwrap_canonical [OF c2] c1 c2 m2
    unfolding k1 k2 by blast
qed

text \<open>
  C4. On a type signature that is neither a struct, a federated, a sequence nor a tensor
  type, wrapping raises the unimplemented-type error naming the type, and unwrapping
  returns its input unchanged.
\<close>

theorem unexpected_kind:
  "\<not> is_struct t \<Longrightarrow> \<not> is_federated t \<Longrightarrow> \<not> is_sequence t \<Longrightarrow> \<not> is_tensor t \<Longrightarrow>
     create_structure_of_value_references v t = Inl (NotImplementedError t) \<and>
     materialize_structure_of_value_references v t = Inr v"
  by (cases t) auto

theorem unexpected_kind_witness:
  "\<not> is_struct PlacementType \<and> \<not> is_federated PlacementType \<and>
   \<not> is_sequence PlacementType \<and> \<not> is_tensor PlacementType \<and>
   create_structure_of_value_references (Scalar 5) PlacementType =
     Inl (NotImplementedError PlacementType) \<and>
   materialize_structure_of_value_references (Scalar 5) PlacementType = Inr (Scalar 5)"
  using unexpected_kind [of PlacementType "Scalar 5"] by simp

lemma create_elements_take:
  "create_elements xs fs =
     create_elements (take (min (length xs) (length fs)) xs) (take (min (length xs) (length fs)) fs)"
proof (induction xs arbitrary: fs)
  case Nil
  then show ?case by simp
next
  case (Cons x xs)
  show ?case
  proof (cases fs)
    case Nil
    then show ?thesis by simp
  next
    case (Cons f fs')
    obtain n t where f: "f = (n, t)" by (cases f)
    have ih: "create_elements xs fs' =
            create_elements (take (min (length xs) (length fs')) xs)
              (take (min (length xs) (length fs')) fs')"
      by (rule Cons.IH)
    have "create_elements (x # xs) ((n, t) # fs') =
            create_elements (x # take (min (length xs) (length fs')) xs)
              ((n, t) # take (min (length xs) (length fs')) fs')"
      by (simp only: create_elements.simps ih [symmetric])
    then show ?thesis unfolding Cons f by simp
  qed
qed

lemma materialize_elements_take:
  "materialize_elements xs fs =
     materialize_elements (take (min (length xs) (length fs)) xs) (take (min (length xs) (length fs)) fs)"
proof (induction xs arbitrary: fs)
  case Nil
  then show ?case by simp
next
  case (Cons x xs)
  show ?case
  proof (cases fs)
    case Nil
    then show ?thesis by simp
  next
    case (Cons f fs')
    obtain n t where f: "f = (n, t)" by (cases f)
    have ih: "materialize_elements xs fs' =
            materialize_elements (take (min (length xs) (length fs')) xs)
              (take (min (length xs) (length fs')) fs')"
      by (rule Cons.IH)
    have "materialize_elements (x # xs) ((n, t) # fs') =
            materialize_elements (x # take (min (length xs) (length fs')) xs)
              ((n, t) # take (min (length xs) (length fs')) fs')"
      by (simp only: materialize_elements.simps ih [symmetric])
    then show ?thesis unfolding Cons f by simp
  qed
qed


lemma create_elements_names:
  "create_elements xs fs = Inr rs \<Longrightarrow>
     map fst rs = map fst (take (length xs) fs) \<and> length rs = min (length xs) (length fs)"
proof (induction xs arbitrary: fs rs)
  case Nil
  then show ?case by simp
next
  case (Cons x xs)
  show ?case
  proof (cases fs)
    case Nil
    then show ?thesis using Cons.prems by simp
  next
    case (Cons f fs')
    obtain n t where f: "f = (n, t)" by (cases f)
    have "create_elements (x # xs) ((n, t) # fs') = Inr rs"
      using Cons.prems Cons f by simp
    then obtain r rs' where
      rs: "rs = (n, r) # rs'" and tl: "create_elements xs fs' = Inr rs'"
      by (auto split: sum.splits)
    from Cons.IH [OF tl] show ?thesis unfolding Cons f rs by simp
  qed
qed

lemma materialize_elements_names:
  "materialize_elements xs fs = Inr rs \<Longrightarrow>
     map fst rs = map fst (take (length xs) fs) \<and> length rs = min (length xs) (length fs)"
proof (induction xs arbitrary: fs rs)
  case Nil
  then show ?case by simp
next
  case (Cons x xs)
  show ?case
  proof (cases fs)
    case Nil
    then show ?thesis using Cons.prems by simp
  next
    case (Cons f fs')
    obtain n t where f: "f = (n, t)" by (cases f)
    have "materialize_elements (x # xs) ((n, t) # fs') = Inr rs"
      using Cons.prems Cons f by simp
    then obtain r rs' where
      rs: "rs = (n, r) # rs'" and tl: "materialize_elements xs fs' = Inr rs'"
      by (auto split: sum.splits)
    from Cons.IH [OF tl] show ?thesis unfolding Cons f rs by simp
  qed
qed


text \<open>
  C9. At a struct type both walkers pair the value's elements with the type's fields and
  stop at the shorter of the two: a length mismatch raises nothing, the result is that of
  the common prefix, and the struct returned has exactly that many fields, named by the
  type's first fields.
\<close>

theorem struct_zip_stops_at_shorter:
  assumes "from_container v = Inr es" and "n = min (length es) (length fs)"
  shows
    "create_structure_of_value_references v (StructType fs) =
       create_structure_of_value_references (StructV (take n es)) (StructType (take n fs)) \<and>
     materialize_structure_of_value_references v (StructType fs) =
       materialize_structure_of_value_references (StructV (take n es)) (StructType (take n fs)) \<and>
     (\<forall>r. create_structure_of_value_references v (StructType fs) = Inr r \<longrightarrow>
        (\<exists>rs. r = StructV rs \<and> length rs = n \<and> map fst rs = map fst (take n fs))) \<and>
     (\<forall>r. materialize_structure_of_value_references v (StructType fs) = Inr r \<longrightarrow>
        (\<exists>rs. r = StructV rs \<and> length rs = n \<and> map fst rs = map fst (take n fs)))"
proof -
  have n: "n = min (length (map snd es)) (length fs)" using assms(2) by simp
  have c: "create_elements (map snd es) fs =
             create_elements (map snd (take n es)) (take n fs)"
    unfolding n take_map [symmetric] by (rule create_elements_take)
  have m: "materialize_elements (map snd es) fs =
             materialize_elements (map snd (take n es)) (take n fs)"
    unfolding n take_map [symmetric] by (rule materialize_elements_take)
  have tk: "take n fs = take (length es) fs"
    using assms(2) by (simp add: min_def)
  have cn: "length rs = n \<and> map fst rs = map fst (take n fs)"
    if "create_elements (map snd es) fs = Inr rs" for rs
    using create_elements_names [OF that] n tk by simp
  have mn: "length rs = n \<and> map fst rs = map fst (take n fs)"
    if "materialize_elements (map snd es) fs = Inr rs" for rs
    using materialize_elements_names [OF that] n tk by simp
  have 1: "create_structure_of_value_references v (StructType fs) =
       create_structure_of_value_references (StructV (take n es)) (StructType (take n fs))"
    by (simp only: create_structure_of_value_references.simps assms(1) from_container.simps
          sum.case c)
  have 2: "materialize_structure_of_value_references v (StructType fs) =
       materialize_structure_of_value_references (StructV (take n es)) (StructType (take n fs))"
    by (simp only: materialize_structure_of_value_references.simps assms(1)
          from_container.simps sum.case m)
  have 3: "\<exists>rs. r = StructV rs \<and> length rs = n \<and> map fst rs = map fst (take n fs)"
    if "create_structure_of_value_references v (StructType fs) = Inr r" for r
  proof (cases "create_elements (map snd es) fs")
    case (Inl e)
    then show ?thesis using that assms(1) by simp
  next
    case (Inr rs)
    then have "r = StructV rs" using that assms(1) by simp
    then show ?thesis using cn [OF Inr] by blast
  qed
  have 4: "\<exists>rs. r = StructV rs \<and> length rs = n \<and> map fst rs = map fst (take n fs)"
    if "materialize_structure_of_value_references v (StructType fs) = Inr r" for r
  proof (cases "materialize_elements (map snd es) fs")
    case (Inl e)
    then show ?thesis using that assms(1) by simp
  next
    case (Inr rs)
    then have "r = StructV rs" using that assms(1) by simp
    then show ?thesis using mn [OF Inr] by blast
  qed
  show ?thesis using 1 2 3 4 by blast
qed

theorem struct_zip_stops_at_shorter_witness:
  "from_container (ListV [Scalar 1, Scalar 2, Scalar 3]) =
     Inr [(None, Scalar 1), (None, Scalar 2), (None, Scalar 3)] \<and>
   (1::nat) = min (length [(None :: string option, Scalar 1), (None, Scalar 2), (None, Scalar 3)])
                  (length [(Some ''a'', TensorType Int32 [])]) \<and>
   create_structure_of_value_references (ListV [Scalar 1, Scalar 2, Scalar 3])
       (StructType [(Some ''a'', TensorType Int32 [])]) =
     Inr (StructV [(Some ''a'', Ref (Scalar 1) (TensorType Int32 []))]) \<and>
   materialize_structure_of_value_references (ListV [Scalar 1, Scalar 2, Scalar 3])
       (StructType [(Some ''a'', TensorType Int32 [])]) =
     Inr (StructV [(Some ''a'', Scalar 1)])"
  using struct_zip_stops_at_shorter [of "ListV [Scalar 1, Scalar 2, Scalar 3]"
      "[(None, Scalar 1), (None, Scalar 2), (None, Scalar 3)]" 1 "[(Some ''a'', TensorType Int32 [])]"]
  by (simp add: NumpyValueReference_def)

section \<open>Properties of reference equality\<close>

text \<open>
  Where equality answers as expected: the same object is equal to itself; references with
  differing type signatures are unequal; under a sequence type the answer is whether the
  listed elements are equal; under another type two scalars are equal when their values
  are.
\<close>

lemma NumpyValueReference_eq_cases:
  assumes "heap self = NumpyValueReferenceObject v t"
    and "heap other = NumpyValueReferenceObject v' t'"
  shows
    "(self = other \<longrightarrow>
        NumpyValueReference_eq mismatch heap self other = Inr (PyBool True)) \<and>
     (t \<noteq> t' \<longrightarrow>
        NumpyValueReference_eq mismatch heap self other = Inr (PyBool False)) \<and>
     (self \<noteq> other \<longrightarrow> t = t' \<longrightarrow> is_sequence t \<longrightarrow>
        np_list v = Inr xs \<longrightarrow> np_list v' = Inr ys \<longrightarrow>
        NumpyValueReference_eq mismatch heap self other = Inr (PyBool (xs = ys))) \<and>
     (self \<noteq> other \<longrightarrow> t = t' \<longrightarrow> \<not> is_sequence t \<longrightarrow>
        v = Generic a \<longrightarrow> v' = Generic b \<longrightarrow>
        NumpyValueReference_eq mismatch heap self other = Inr (PyBool (a = b)))"
proof -
  have ne: "self \<noteq> other" if "t \<noteq> t'" using that assms by auto
  have 1: "NumpyValueReference_eq mismatch heap self other = Inr (PyBool True)"
    if "self = other"
    using that by (simp add: NumpyValueReference_eq_def)
  have 2: "NumpyValueReference_eq mismatch heap self other = Inr (PyBool False)"
    if "t \<noteq> t'"
    using that ne assms by (simp add: NumpyValueReference_eq_def)
  have 3: "NumpyValueReference_eq mismatch heap self other = Inr (PyBool (xs = ys))"
    if "self \<noteq> other" "t = t'" "is_sequence t" "np_list v = Inr xs" "np_list v' = Inr ys"
    using that assms by (simp add: NumpyValueReference_eq_def)
  have 4: "NumpyValueReference_eq mismatch heap self other = Inr (PyBool (a = b))"
    if "self \<noteq> other" "t = t'" "\<not> is_sequence t" "v = Generic a" "v' = Generic b"
    using that assms by (simp add: NumpyValueReference_eq_def)
  show ?thesis using 1 2 3 4 by blast
qed

text \<open>
  C6. Two distinct references hold the arrays [1, 2] and [1, 2] under the same tensor type.
  Comparing them returns the elementwise array [True, True] and not the bool True, while
  the same data under a sequence type, and two equal scalars, compare to True.
\<close>

theorem NumpyValueReference_eq_arrays:
  "NumpyValueReference_eq mismatch example_heap 0 1 = Inr (BoolArray [True, True]) \<and>
   NumpyValueReference_eq mismatch example_heap 0 1 \<noteq> Inr (PyBool True) \<and>
   NumpyValueReference_eq mismatch example_heap 2 3 = Inr (PyBool True) \<and>
   NumpyValueReference_eq mismatch example_heap 0 0 = Inr (PyBool True) \<and>
   NumpyValueReference_eq mismatch example_heap 0 4 = Inr (PyBool False)"
  by (simp add: NumpyValueReference_eq_def example_heap_def)

section \<open>Properties of the federated context\<close>

lemma client_placed_not_server_only:
  "contains_client_placed t \<longrightarrow> \<not> contains_only_server_placed_data t"
  "fields_contain_client_placed fs \<longrightarrow> \<not> fields_only_server_placed_data fs"
  by (induction t and fs rule: contains_client_placed_fields_contain_client_placed.induct) auto

lemma create_error_kind:
  "create_structure_of_value_references v t = Inl e \<longrightarrow>
     e = TypeError \<or> (\<exists>t'. e = NotImplementedError t')"
  "create_elements xs fs = Inl e \<longrightarrow> e = TypeError \<or> (\<exists>t'. e = NotImplementedError t')"
proof (induction v t and xs fs
    rule: create_structure_of_value_references_create_elements.induct)
  case (1 v fs)
  then show ?case by (cases "from_container v") (auto elim: from_container.elims split: sum.splits)
next
  case (10 x xs name element_type fs)
  then show ?case by (auto split: sum.splits)
qed (auto simp: NumpyValueReference_def)

lemma invoke_and_wrap_calls:
  "snd (invoke_and_wrap ctx conv cmp arg calls) = calls @ [Invoke cmp arg]"
  by (simp add: invoke_and_wrap_def Let_def split: sum.splits)

lemma invoke_and_wrap_no_value_error:
  "fst (invoke_and_wrap ctx conv cmp arg calls) \<noteq> Inl (ValueError x)"
  using create_error_kind(1)
  by (fastforce simp: invoke_and_wrap_def Let_def split: sum.splits)

lemma invoke_calls_gate_passed:
  "contains_only_server_placed_data (result (type_signature cmp)) \<Longrightarrow>
   snd (NativeFederatedContext_invoke ctx conv cmp arg) =
     (case parameter (type_signature cmp) of
        None \<Rightarrow> [Invoke cmp arg]
      | Some p \<Rightarrow>
          (case ingest ctx arg p of
             Inl c \<Rightarrow> [Ingest arg p]
           | Inr arg' \<Rightarrow> [Ingest arg p, Invoke cmp arg']))"
  by (simp add: NativeFederatedContext_invoke_def Let_def invoke_and_wrap_calls
      split: option.splits sum.splits)



text \<open>
  C2. When the declared result type of the computation contains a client-placed value,
  invoke raises the error that names the result type and makes no call to the engine;
  when the result type contains only structs, server-placed values and tensors, that
  error is not raised and the engine is reached.
\<close>

theorem invoke_result_type_gate:
  "(contains_client_placed (result (type_signature cmp)) \<longrightarrow>
      NativeFederatedContext_invoke ctx conv cmp arg =
        (Inl (ValueError (ResultTypeNotServerPlaced (result (type_signature cmp)))), [])) \<and>
   (contains_only_server_placed_data (result (type_signature cmp)) \<longrightarrow>
      (\<forall>x. fst (NativeFederatedContext_invoke ctx conv cmp arg) \<noteq> Inl (ValueError x)) \<and>
      snd (NativeFederatedContext_invoke ctx conv cmp arg) \<noteq> [])"
proof -
  have 1: "NativeFederatedContext_invoke ctx conv cmp arg =
        (Inl (ValueError (ResultTypeNotServerPlaced (result (type_signature cmp)))), [])"
    if "contains_client_placed (result (type_signature cmp))"
    using that client_placed_not_server_only(1)
    by (simp add: NativeFederatedContext_invoke_def Let_def)
  have 2: "fst (NativeFederatedContext_invoke ctx conv cmp arg) \<noteq> Inl (ValueError x)"
    if "contains_only_server_placed_data (result (type_signature cmp))" for x
    using that invoke_and_wrap_no_value_error
    by (simp add: NativeFederatedContext_invoke_def Let_def split: option.splits sum.splits)
  have 3: "snd (NativeFederatedContext_invoke ctx conv cmp arg) \<noteq> []"
    if "contains_only_server_placed_data (result (type_signature cmp))"
    using invoke_calls_gate_passed [OF that] by (simp split: option.splits sum.splits)
  show ?thesis using 1 2 3 by blast
qed


theorem invoke_result_type_gate_witness:
  "contains_client_placed
     (StructType [(None, FederatedType (TensorType Int32 []) SERVER),
                  (Some ''x'', FederatedType (TensorType Int32 []) CLIENTS)]) \<and>
   NativeFederatedContext_invoke example_context example_conversion
     (computation_of None
        (StructType [(None, FederatedType (TensorType Int32 []) SERVER),
                     (Some ''x'', FederatedType (TensorType Int32 []) CLIENTS)])) NoneV =
     (Inl (ValueError (ResultTypeNotServerPlaced
        (StructType [(None, FederatedType (TensorType Int32 []) SERVER),
                     (Some ''x'', FederatedType (TensorType Int32 []) CLIENTS)]))), []) \<and>
   contains_only_server_placed_data
     (StructType [(None, FederatedType (TensorType Int32 []) SERVER)]) \<and>
   (\<forall>x. fst (NativeFederatedContext_invoke example_context example_conversion
     (computation_of None (StructType [(None, FederatedType (TensorType Int32 []) SERVER)]))
     NoneV) \<noteq> Inl (ValueError x))"
  using invoke_result_type_gate [of
      "computation_of None
        (StructType [(None, FederatedType (TensorType Int32 []) SERVER),
                     (Some ''x'', FederatedType (TensorType Int32 []) CLIENTS)])"
      example_context example_conversion NoneV]
    invoke_result_type_gate [of
      "computation_of None (StructType [(None, FederatedType (TensorType Int32 []) SERVER)])"
      example_context example_conversion NoneV]
  by (simp add: computation_of_def)

text \<open>
  C7. A computation that declares no parameter type is invoked without any call to the
  engine's ingest, so ingest is not called exactly once on every invoke.
\<close>

theorem invoke_without_parameter_counterexample:
  "snd (NativeFederatedContext_invoke example_context example_conversion
          (computation_of None (TensorType Int32 [])) NoneV) =
     [Invoke (computation_of None (TensorType Int32 [])) NoneV] \<and>
   count_ingest (snd (NativeFederatedContext_invoke example_context example_conversion
          (computation_of None (TensorType Int32 [])) NoneV)) \<noteq> 1"
  by (simp add: NativeFederatedContext_invoke_def invoke_and_wrap_def computation_of_def
      example_context_def example_conversion_def NumpyValueReference_def count_ingest_def
      Let_def)

text \<open>
  C7, amended. When the result type fails the gate the engine is not called. Otherwise
  the engine's ingest is called exactly once if the computation declares a parameter type
  and not at all if it declares none, and the engine's invoke is called exactly once,
  unless the engine's ingest raised, in which case invoke is not called.
\<close>

theorem invoke_engine_calls:
  "(\<not> contains_only_server_placed_data (result (type_signature cmp)) \<longrightarrow>
      snd (NativeFederatedContext_invoke ctx conv cmp arg) = []) \<and>
   (contains_only_server_placed_data (result (type_signature cmp)) \<longrightarrow>
      count_ingest (snd (NativeFederatedContext_invoke ctx conv cmp arg)) =
        (case parameter (type_signature cmp) of None \<Rightarrow> 0 | Some p \<Rightarrow> 1) \<and>
      count_invoke (snd (NativeFederatedContext_invoke ctx conv cmp arg)) =
        (case parameter (type_signature cmp) of
           None \<Rightarrow> 1
         | Some p \<Rightarrow> (case ingest ctx arg p of Inl c \<Rightarrow> 0 | Inr arg' \<Rightarrow> 1)))"
proof -
  have 1: "snd (NativeFederatedContext_invoke ctx conv cmp arg) = []"
    if "\<not> contains_only_server_placed_data (result (type_signature cmp))"
    using that by (simp add: NativeFederatedContext_invoke_def Let_def)
  have 2: "count_ingest (snd (NativeFederatedContext_invoke ctx conv cmp arg)) =
        (case parameter (type_signature cmp) of None \<Rightarrow> 0 | Some p \<Rightarrow> 1)"
    if "contains_only_server_placed_data (result (type_signature cmp))"
    unfolding invoke_calls_gate_passed [OF that]
    by (simp add: count_ingest_def split: option.splits sum.splits)
  have 3: "count_invoke (snd (NativeFederatedContext_invoke ctx conv cmp arg)) =
        (case parameter (type_signature cmp) of
           None \<Rightarrow> 1
         | Some p \<Rightarrow> (case ingest ctx arg p of Inl c \<Rightarrow> 0 | Inr arg' \<Rightarrow> 1))"
    if "contains_only_server_placed_data (result (type_signature cmp))"
    unfolding invoke_calls_gate_passed [OF that]
    by (simp add: count_invoke_def split: option.splits sum.splits)
  show ?thesis using 1 2 3 by blast
qed

theorem invoke_engine_calls_witness:
  "contains_only_server_placed_data (TensorType Int32 []) \<and>
   count_ingest (snd (NativeFederatedContext_invoke example_context example_conversion
      (computation_of (Some (TensorType Int32 [])) (TensorType Int32 [])) (Scalar 3))) = 1 \<and>
   count_invoke (snd (NativeFederatedContext_invoke example_context example_conversion
      (computation_of (Some (TensorType Int32 [])) (TensorType Int32 [])) (Scalar 3))) = 1 \<and>
   \<not> contains_only_server_placed_data (FederatedType (TensorType Int32 []) CLIENTS) \<and>
   snd (NativeFederatedContext_invoke example_context example_conversion
      (computation_of None (FederatedType (TensorType Int32 []) CLIENTS)) NoneV) = []"
  using invoke_engine_calls [of
      "computation_of (Some (TensorType Int32 [])) (TensorType Int32 [])"
      example_context example_conversion "Scalar 3"]
    invoke_engine_calls [of
      "computation_of None (FederatedType (TensorType Int32 []) CLIENTS)"
      example_context example_conversion NoneV]
  by (simp add: computation_of_def example_context_def)

section \<open>Properties of the data source and its iterator\<close>

lemma check_element_specs_iff:
  "(check_element_specs spec ds = Inr ()) = (\<forall>d\<in>set ds. element_spec d = spec)"
  by (induction ds) auto

lemma check_element_specs_error:
  "check_element_specs spec ds = Inl e \<Longrightarrow> \<exists>x. e = ValueError x"
  by (induction ds) (auto split: if_splits)

lemma choices_ok:
  "population \<noteq> [] \<or> k = 0 \<Longrightarrow>
     \<exists>xs. choices g population k = Inr xs \<and> length xs = k \<and> set xs \<subseteq> set population"
proof (induction k arbitrary: g)
  case 0
  then show ?case by simp
next
  case (Suc k)
  then have ne: "population \<noteq> []" by simp
  then obtain xs where xs: "choices (\<lambda>i. g (Suc i)) population k = Inr xs"
      "length xs = k" "set xs \<subseteq> set population"
    using Suc.IH [of "\<lambda>i. g (Suc i)"] by blast
  have "g 0 mod length population < length population" using ne by simp
  then have "population ! (g 0 mod length population) \<in> set population" by simp
  then show ?case using ne xs by simp
qed

text \<open>
  C3. On an iterator over N datasets, select raises exactly when the number of clients is
  missing, negative or greater than N; for 0 \<le> k \<le> N it returns a list of exactly k
  items, each one of the N datasets; and it leaves the iterator and its collection as they
  were.
\<close>

theorem select_bounds:
  "((\<exists>e. fst (select w self k) = Inl e) \<longleftrightarrow>
      (case k of
         None \<Rightarrow> True
       | Some n \<Rightarrow> n < 0 \<or> n > int (length (collections w (it_datasets self))))) \<and>
   (\<forall>n. k = Some n \<and> 0 \<le> n \<and> n \<le> int (length (collections w (it_datasets self))) \<longrightarrow>
      (\<exists>xs. fst (select w self k) = Inr xs \<and> length xs = nat n \<and>
            set xs \<subseteq> set (collections w (it_datasets self)))) \<and>
   fst (snd (select w self k)) = self \<and>
   collections (snd (snd (select w self k))) = collections w"
proof (cases k)
  case None
  then show ?thesis by (simp add: select_def)
next
  case (Some n)
  let ?pop = "collections w (it_datasets self)"
  show ?thesis
  proof (cases "n < 0 \<or> n > int (length ?pop)")
    case True
    then show ?thesis using Some by (auto simp: select_def)
  next
    case False
    then have "?pop \<noteq> [] \<or> nat n = 0" by auto
    then obtain xs where xs: "choices (random_state w) ?pop (nat n) = Inr xs"
        "length xs = nat n" "set xs \<subseteq> set ?pop"
      using choices_ok [of ?pop "nat n" "random_state w"] by blast
    have "select w self k =
            (Inr xs, self, w\<lparr>random_state := (\<lambda>i. random_state w (i + nat n))\<rparr>)"
      using Some False xs(1) by (simp add: select_def)
    then show ?thesis using Some False xs by simp
  qed
qed


theorem select_bounds_witness:
  "(\<exists>xs. fst (select example_world example_iterator (Some 2))
          = Inr xs \<and> length xs = 2 \<and>
          set xs \<subseteq> {int_dataset 0, int_dataset 1, int_dataset 2}) \<and>
   (\<exists>e. fst (select example_world example_iterator (Some 4))
          = Inl e) \<and>
   (\<exists>e. fst (select example_world example_iterator (Some (- 1)))
          = Inl e) \<and>
   (\<exists>e. fst (select example_world example_iterator None)
          = Inl e)"
  using select_bounds [of example_world example_iterator
          "Some 2"]
        select_bounds [of example_world example_iterator
          "Some 4"]
        select_bounds [of example_world example_iterator
          "Some (- 1)"]
        select_bounds [of example_world example_iterator
          None]
  by (simp add: example_world_def example_iterator_def)


text \<open>
  C5. Constructing a data source fails on an empty collection and fails when some
  dataset's element specification differs from the first dataset's; with a single dataset
  it succeeds; and a data source that was constructed holds a collection that is not empty
  and is homogeneous, with the federated type Sequence(element spec) placed at CLIENTS.
\<close>

theorem DatasetDataSource_init_validates:
  "(collections w a = [] \<longrightarrow> DatasetDataSource_init w a = Inl (ValueError EmptyDatasets)) \<and>
   ((\<exists>d\<in>set (collections w a). element_spec d \<noteq> element_spec (hd (collections w a))) \<longrightarrow>
      (\<exists>x. DatasetDataSource_init w a = Inl (ValueError x))) \<and>
   (\<forall>d. collections w a = [d] \<longrightarrow>
      DatasetDataSource_init w a =
        Inr \<lparr>src_datasets = a,
             src_federated_type = FederatedType (SequenceType (element_spec d)) CLIENTS\<rparr>) \<and>
   (\<forall>src. DatasetDataSource_init w a = Inr src \<longrightarrow>
      src_datasets src = a \<and> collections w a \<noteq> [] \<and>
      (\<forall>d\<in>set (collections w a). element_spec d = element_spec (hd (collections w a))) \<and>
      src_federated_type src =
        FederatedType (SequenceType (element_spec (hd (collections w a)))) CLIENTS)"
proof (cases "collections w a")
  case Nil
  then show ?thesis by (simp add: DatasetDataSource_init_def)
next
  case (Cons d0 rest)
  show ?thesis
  proof (cases "check_element_specs (element_spec d0) (d0 # rest)")
    case (Inl e)
    then obtain x where x: "e = ValueError x" using check_element_specs_error by blast
    have init: "DatasetDataSource_init w a = Inl (ValueError x)"
      using Cons Inl x by (simp add: DatasetDataSource_init_def)
    have "rest \<noteq> []" using Inl by (auto split: if_splits)
    then show ?thesis using Cons init by auto
  next
    case (Inr u)
    then have all: "\<forall>d\<in>set (d0 # rest). element_spec d = element_spec d0"
      using check_element_specs_iff [of "element_spec d0" "d0 # rest"] by simp
    have init: "DatasetDataSource_init w a =
        Inr \<lparr>src_datasets = a,
             src_federated_type = FederatedType (SequenceType (element_spec d0)) CLIENTS\<rparr>"
      using Cons Inr by (simp add: DatasetDataSource_init_def)
    show ?thesis unfolding init Cons using all by auto
  qed
qed

theorem DatasetDataSource_init_validates_witness:
  "collections example_world 1 = [] \<and>
   DatasetDataSource_init example_world 1 = Inl (ValueError EmptyDatasets) \<and>
   (\<exists>d\<in>set (collections example_world_appended 0).
      element_spec d \<noteq> element_spec (hd (collections example_world_appended 0))) \<and>
   (\<exists>x. DatasetDataSource_init example_world_appended 0 = Inl (ValueError x)) \<and>
   DatasetDataSource_init example_world 0 = Inr example_source \<and>
   collections example_world 0 \<noteq> []"
  using DatasetDataSource_init_validates [of example_world 1]
    DatasetDataSource_init_validates [of example_world_appended 0]
    DatasetDataSource_init_validates [of example_world 0]
  by (simp add: example_world_def example_world_appended_def example_source_def
      int_dataset_def float_dataset_def DatasetDataSource_init_def)


lemma DatasetDataSourceIterator_init_Inr_iff:
  "(DatasetDataSourceIterator_init w a ft = Inr it) =
     (collections w a \<noteq> [] \<and>
      (\<forall>d\<in>set (collections w a). element_spec d = element_spec (hd (collections w a))) \<and>
      is_federated ft \<and> it = \<lparr>it_datasets = a, it_federated_type = ft\<rparr>)"
proof (cases "collections w a")
  case Nil
  then show ?thesis by (simp add: DatasetDataSourceIterator_init_def)
next
  case (Cons d0 rest)
  show ?thesis
  proof (cases "check_element_specs (element_spec d0) (d0 # rest)")
    case (Inl e)
    then have "\<not> (\<forall>d\<in>set (d0 # rest). element_spec d = element_spec d0)"
      using check_element_specs_iff [of "element_spec d0" "d0 # rest"] by simp
    then show ?thesis using Cons Inl by (simp add: DatasetDataSourceIterator_init_def)
  next
    case (Inr u)
    then have "\<forall>d\<in>set (d0 # rest). element_spec d = element_spec d0"
      using check_element_specs_iff [of "element_spec d0" "d0 # rest"] by simp
    then show ?thesis using Cons Inr by (auto simp: DatasetDataSourceIterator_init_def)
  qed
qed

lemma select_keeps_iterator: "fst (snd (select w self k)) = self"
  by (simp add: select_def split: option.splits sum.splits)

text \<open>
  C10. Constructing an iterator directly succeeds exactly when the datasets are valid and
  the federated type is a federated type: nothing relates it to the element specification.
  The federated type of the iterator is the one passed at construction, and it is still
  that after any select.
\<close>

theorem DatasetDataSourceIterator_init_federated_type:
  "((\<exists>it. DatasetDataSourceIterator_init w a ft = Inr it) \<longleftrightarrow>
      collections w a \<noteq> [] \<and>
      (\<forall>d\<in>set (collections w a). element_spec d = element_spec (hd (collections w a))) \<and>
      is_federated ft) \<and>
   (\<forall>it. DatasetDataSourceIterator_init w a ft = Inr it \<longrightarrow>
      federated_type it = ft \<and>
      (\<forall>w' k. federated_type (fst (snd (select w' it k))) = ft))"
  by (simp add: DatasetDataSourceIterator_init_Inr_iff select_keeps_iterator federated_type_def)

theorem DatasetDataSourceIterator_init_federated_type_witness:
  "collections example_world 0 \<noteq> [] \<and>
   map element_spec (collections example_world 0) =
     [TensorType Int32 [], TensorType Int32 [], TensorType Int32 []] \<and>
   is_federated (FederatedType (TensorType Bool [3]) SERVER) \<and>
   (\<exists>it. DatasetDataSourceIterator_init example_world 0
            (FederatedType (TensorType Bool [3]) SERVER) = Inr it \<and>
         federated_type it = FederatedType (TensorType Bool [3]) SERVER \<and>
         federated_type (fst (snd (select example_world it (Some 2)))) =
           FederatedType (TensorType Bool [3]) SERVER)"
  using DatasetDataSourceIterator_init_federated_type [of example_world 0
      "FederatedType (TensorType Bool [3]) SERVER"]
  by (simp add: example_world_def int_dataset_def) blast


text \<open>
  C8. After the caller has appended a dataset of another element specification to the list
  it gave to the data source, iterator() raises: the iterator's constructor validates the
  shared collection again.
\<close>

theorem iterator_revalidates_counterexample:
  "DatasetDataSource_init example_world 0 = Inr example_source \<and>
   iterator example_world_appended example_source =
     Inl (ValueError (ElementSpecMismatch (TensorType Int32 []) (TensorType Float32 [])))"
  by (simp add: DatasetDataSource_init_def iterator_def DatasetDataSourceIterator_init_def
      example_world_def example_world_appended_def example_source_def int_dataset_def
      float_dataset_def)

text \<open>
  C8, amended. iterator() passes the data source's own collection and federated type, by
  reference, to the constructor of the iterator, which validates the collection again. It
  returns a new iterator holding that collection and that type whenever the collection is
  still non-empty and homogeneous, as it is while it is as the data source found it, and
  raises otherwise.
\<close>

theorem iterator_shares_and_revalidates:
  assumes "DatasetDataSource_init w a = Inr src"
  shows
    "iterator w src =
       Inr \<lparr>it_datasets = src_datasets src, it_federated_type = src_federated_type src\<rparr> \<and>
     (\<forall>w'. (\<exists>it. iterator w' src = Inr it) \<longleftrightarrow>
        collections w' (src_datasets src) \<noteq> [] \<and>
        (\<forall>d\<in>set (collections w' (src_datasets src)).
           element_spec d = element_spec (hd (collections w' (src_datasets src))))) \<and>
     (\<forall>w' it. iterator w' src = Inr it \<longrightarrow>
        it_datasets it = src_datasets src \<and> it_federated_type it = src_federated_type src)"
proof -
  have ne: "collections w a \<noteq> []"
    using assms by (auto simp: DatasetDataSource_init_def split: list.splits)
  then obtain d0 rest where c: "collections w a = d0 # rest" by (cases "collections w a") auto
  have chk: "check_element_specs (element_spec d0) (d0 # rest) = Inr ()"
    using assms c by (auto simp: DatasetDataSource_init_def split: sum.splits)
  have src: "src = \<lparr>src_datasets = a,
      src_federated_type = FederatedType (SequenceType (element_spec d0)) CLIENTS\<rparr>"
    using assms c chk by (simp add: DatasetDataSource_init_def)
  have fed: "is_federated (src_federated_type src)" by (simp add: src)
  have hom: "\<forall>d\<in>set (collections w a). element_spec d = element_spec (hd (collections w a))"
    using chk check_element_specs_iff [of "element_spec d0" "d0 # rest"] c by simp
  have a: "src_datasets src = a" by (simp add: src)
  have 1: "iterator w src =
       Inr \<lparr>it_datasets = src_datasets src, it_federated_type = src_federated_type src\<rparr>"
    unfolding iterator_def DatasetDataSourceIterator_init_Inr_iff a using ne hom fed by blast
  have 2: "(\<exists>it. iterator w' src = Inr it) \<longleftrightarrow>
        collections w' (src_datasets src) \<noteq> [] \<and>
        (\<forall>d\<in>set (collections w' (src_datasets src)).
           element_spec d = element_spec (hd (collections w' (src_datasets src))))" for w'
    unfolding iterator_def DatasetDataSourceIterator_init_Inr_iff using fed by simp
  have 3: "it_datasets it = src_datasets src \<and> it_federated_type it = src_federated_type src"
    if "iterator w' src = Inr it" for w' it
    using that unfolding iterator_def DatasetDataSourceIterator_init_Inr_iff by simp
  show ?thesis using 1 2 3 by blast
qed

theorem iterator_shares_and_revalidates_witness:
  "DatasetDataSource_init example_world 0 = Inr example_source \<and>
   iterator example_world example_source = Inr example_iterator \<and>
   (\<exists>it. iterator example_world example_source = Inr it)"
proof -
  have init: "DatasetDataSource_init example_world 0 = Inr example_source"
    by (simp add: example_world_def example_source_def int_dataset_def
        DatasetDataSource_init_def)
  have it: "\<lparr>it_datasets = 0,
            it_federated_type = FederatedType (SequenceType (TensorType Int32 [])) CLIENTS\<rparr> =
          example_iterator"
    by (simp add: example_iterator_def)
  have s: "src_datasets example_source = 0"
    "src_federated_type example_source =
       FederatedType (SequenceType (TensorType Int32 [])) CLIENTS"
    by (simp_all add: example_source_def)
  show ?thesis
    using iterator_shares_and_revalidates [OF init] init unfolding s it by blast
qed

end
